theory Spec2Isabelle
  imports Main "HOL-Library.Word"
begin

section \<open>Access codes (server/routes.ts, generateAccessCode)\<close>

text \<open>
  The alphabet of \<^verbatim>\<open>generateAccessCode\<close>. The source draws twelve random bytes with
  \<^verbatim>\<open>randomBytes(12)\<close>; the model takes them as the argument \<open>bytes\<close>.
\<close>

definition chars :: string where
  "chars = ''ABCDEFGHJKLMNPQRSTUVWXYZ23456789''"

text \<open>
  One round of the loop body \<^verbatim>\<open>code += chars[bytes[i] % chars.length]\<close>. Reading a
  byte array beyond its end gives \<^verbatim>\<open>undefined\<close> in JavaScript, the remainder is then
  \<^verbatim>\<open>NaN\<close>, the character lookup \<^verbatim>\<open>undefined\<close> again, and \<^verbatim>\<open>+=\<close> appends the text
  "undefined".
\<close>

definition pick :: "8 word list \<Rightarrow> nat \<Rightarrow> string" where
  "pick bytes i =
     (if i < length bytes then [chars ! (unat (bytes ! i) mod length chars)]
      else ''undefined'')"

text \<open>\<^verbatim>\<open>s.slice(a, b)\<close> for \<open>0 \<le> a \<le> b\<close>; both ends are clamped to the length.\<close>

definition slice_js :: "nat \<Rightarrow> nat \<Rightarrow> string \<Rightarrow> string" where
  "slice_js a b s = take (b - a) (drop a s)"

definition generateAccessCode :: "8 word list \<Rightarrow> string" where
  "generateAccessCode bytes =
     (let code = foldl (\<lambda>code i. code @ pick bytes i) [] [0..<12]
      in slice_js 0 4 code @ ''-'' @ slice_js 4 8 code @ ''-'' @ slice_js 8 12 code)"

section \<open>Data model (shared/schema.ts)\<close>

text \<open>
  Identifiers are the \<^verbatim>\<open>varchar\<close> keys of the schema. A nullable column is an
  \<open>option\<close>. The nullable boolean columns are read by the handlers only through
  JavaScript truthiness, where \<^verbatim>\<open>null\<close> and \<^verbatim>\<open>false\<close> agree, so they are \<open>bool\<close>.
  Timestamps are natural numbers. Columns that no modelled handler reads
  (\<^verbatim>\<open>createdAt\<close>, passwords, descriptions, the free-text \<^verbatim>\<open>details\<close> of an audit
  row, the row ids of the audit, assignment and quota tables) are left out.
\<close>

type_synonym ident = string

datatype role = super_admin | admin | event_manager | organizer

record user =
  u_id :: ident
  u_name :: string
  u_role :: role

record event =
  e_id :: ident
  e_name :: string
  e_date :: nat
  eventManagerId :: ident
  e_capacityTierId :: "ident option"
  e_isActive :: bool

record guestFields =
  f_name :: string
  f_phone :: string
  f_category :: string
  f_companions :: int
  f_notes :: string

record guest =
  g_id :: ident
  g_eventId :: ident
  g_fields :: guestFields
  qrCode :: string
  isCheckedIn :: bool
  checkedInAt :: "nat option"
  checkedInBy :: "ident option"

record eventOrganizer =
  a_eventId :: ident
  organizerId :: ident

record auditLog =
  l_eventId :: "ident option"
  l_userId :: ident
  action :: string
  l_guestId :: "ident option"

record capacityTier =
  t_id :: ident
  t_name :: string
  minGuests :: int
  maxGuests :: "int option"
  isUnlimited :: bool
  t_isActive :: bool
  sortOrder :: int

record userTierQuota =
  q_userId :: ident
  q_capacityTierId :: ident
  quota :: int

record db =
  users :: "user list"
  events :: "event list"
  guests :: "guest list"
  eventOrganizers :: "eventOrganizer list"
  auditLogs :: "auditLog list"
  capacityTiers :: "capacityTier list"
  userTierQuotas :: "userTierQuota list"

text \<open>JavaScript truthiness of a value of type \<^verbatim>\<open>string | null | undefined\<close>.\<close>

definition truthy :: "string option \<Rightarrow> bool" where
  "truthy x = (case x of None \<Rightarrow> False | Some s \<Rightarrow> s \<noteq> [])"

section \<open>Storage layer (DatabaseStorage)\<close>

text \<open>
  A \<^verbatim>\<open>select ... where\<close> whose first row is taken (\<^verbatim>\<open>const [row] = ...\<close>) is
  \<open>find\<close>; one whose rows are all returned is \<open>filter\<close>.
\<close>

definition getUser :: "db \<Rightarrow> ident \<Rightarrow> user option" where
  "getUser d uid = find (\<lambda>u. u_id u = uid) (users d)"

definition getEvent :: "db \<Rightarrow> ident \<Rightarrow> event option" where
  "getEvent d eid = find (\<lambda>e. e_id e = eid) (events d)"

definition getGuest :: "db \<Rightarrow> ident \<Rightarrow> guest option" where
  "getGuest d gid = find (\<lambda>g. g_id g = gid) (guests d)"

definition getGuestByQrCode :: "db \<Rightarrow> string \<Rightarrow> guest option" where
  "getGuestByQrCode d c = find (\<lambda>g. qrCode g = c) (guests d)"

definition getGuestsByEvent :: "db \<Rightarrow> ident \<Rightarrow> guest list" where
  "getGuestsByEvent d eid = filter (\<lambda>g. g_eventId g = eid) (guests d)"

text \<open>
  The row a guest insert produces: the database fills the id (\<^verbatim>\<open>gen_random_uuid()\<close>,
  here the argument \<open>newId\<close>) and the check-in columns with their defaults.
\<close>

definition guestRow :: "ident \<Rightarrow> ident \<Rightarrow> guestFields \<Rightarrow> string \<Rightarrow> guest" where
  "guestRow newId eid fs code =
     \<lparr>g_id = newId, g_eventId = eid, g_fields = fs, qrCode = code,
      isCheckedIn = False, checkedInAt = None, checkedInBy = None\<rparr>"

text \<open>The values of an \<^verbatim>\<open>integer\<close> column: 32 bits, signed.\<close>

definition int32 :: "int \<Rightarrow> bool" where
  "int32 n = (- 2147483648 \<le> n \<and> n \<le> 2147483647)"

text \<open>The values of a \<^verbatim>\<open>text\<close> column: PostgreSQL stores no NUL character.\<close>

definition pgText :: "string \<Rightarrow> bool" where
  "pgText s = (CHR 0x00 \<notin> set s)"

text \<open>
  The constraints of the \<^verbatim>\<open>guests\<close> table that an insert statement can violate: the
  primary key, the \<^verbatim>\<open>unique\<close> access code, the \<^verbatim>\<open>guest_category\<close> enum, the range of
  the integer column \<^verbatim>\<open>companions\<close> and the values of the text columns \<^verbatim>\<open>name\<close>,
  \<^verbatim>\<open>phone\<close> and \<^verbatim>\<open>notes\<close>. A violating statement throws and inserts nothing.
\<close>

definition guestCategoryEnum :: "string list" where
  "guestCategoryEnum = [''vip'', ''regular'', ''media'', ''sponsor'']"

definition guestsInsertOk :: "db \<Rightarrow> guest list \<Rightarrow> bool" where
  "guestsInsertOk d rows =
     (distinct (map g_id rows) \<and> (\<forall>r \<in> set rows. g_id r \<notin> set (map g_id (guests d)))
      \<and> distinct (map qrCode rows) \<and> (\<forall>r \<in> set rows. qrCode r \<notin> set (map qrCode (guests d)))
      \<and> (\<forall>r \<in> set rows. f_category (g_fields r) \<in> set guestCategoryEnum)
      \<and> (\<forall>r \<in> set rows. int32 (f_companions (g_fields r)))
      \<and> (\<forall>r \<in> set rows. pgText (f_name (g_fields r)) \<and> pgText (f_phone (g_fields r))
                              \<and> pgText (f_notes (g_fields r))))"

definition createGuest :: "db \<Rightarrow> guest \<Rightarrow> (guest \<times> db) option" where
  "createGuest d row =
     (if guestsInsertOk d [row] then Some (row, d\<lparr>guests := guests d @ [row]\<rparr>) else None)"


text \<open>
  \<^verbatim>\<open>checkInGuest\<close>: one update statement whose \<^verbatim>\<open>where\<close> clause is the guest id alone;
  \<open>now\<close> is the value of \<^verbatim>\<open>new Date()\<close>. The first returned row is the result.
\<close>

definition checkInGuest :: "db \<Rightarrow> ident \<Rightarrow> ident \<Rightarrow> nat \<Rightarrow> guest option \<times> db" where
  "checkInGuest d gid oid now =
     (let gs = map (\<lambda>g. if g_id g = gid
                          then g\<lparr>isCheckedIn := True, checkedInAt := Some now,
                                 checkedInBy := Some oid\<rparr>
                          else g) (guests d)
      in (find (\<lambda>g. g_id g = gid) gs, d\<lparr>guests := gs\<rparr>))"

definition getOrganizerEvents :: "db \<Rightarrow> ident \<Rightarrow> event list" where
  "getOrganizerEvents d oid =
     (let assignments = filter (\<lambda>a. organizerId a = oid) (eventOrganizers d);
          eventList = map (\<lambda>a. getEvent d (a_eventId a)) assignments
      in filter e_isActive (List.map_filter (\<lambda>e. e) eventList))"

definition createAuditLog :: "db \<Rightarrow> auditLog \<Rightarrow> db" where
  "createAuditLog d entry = d\<lparr>auditLogs := auditLogs d @ [entry]\<rparr>"


definition getCapacityTier :: "db \<Rightarrow> ident \<Rightarrow> capacityTier option" where
  "getCapacityTier d tid = find (\<lambda>t. t_id t = tid) (capacityTiers d)"









text \<open>
  \<^verbatim>\<open>setUserTierQuota\<close>: select the rows of the pair; when there is one, update every row
  of the pair, otherwise insert a row.
\<close>

definition setUserTierQuota ::
  "db \<Rightarrow> ident \<Rightarrow> ident \<Rightarrow> int \<Rightarrow> userTierQuota option \<times> db" where
  "setUserTierQuota d uid tid n =
     (let existing = filter (\<lambda>q. q_userId q = uid \<and> q_capacityTierId q = tid)
                            (userTierQuotas d)
      in if length existing > 0
         then (let qs = map (\<lambda>q. if q_userId q = uid \<and> q_capacityTierId q = tid
                                    then q\<lparr>quota := n\<rparr> else q) (userTierQuotas d)
               in (find (\<lambda>q. q_userId q = uid \<and> q_capacityTierId q = tid) qs,
                   d\<lparr>userTierQuotas := qs\<rparr>))
         else (let created = \<lparr>q_userId = uid, q_capacityTierId = tid, quota = n\<rparr>
               in (Some created, d\<lparr>userTierQuotas := userTierQuotas d @ [created]\<rparr>)))"

definition deleteUserTierQuotas :: "db \<Rightarrow> ident \<Rightarrow> db" where
  "deleteUserTierQuotas d uid =
     d\<lparr>userTierQuotas := filter (\<lambda>q. q_userId q \<noteq> uid) (userTierQuotas d)\<rparr>"


section \<open>Request handlers (server/routes.ts)\<close>

text \<open>
  The error responses of the modelled routes, one constructor for each status and
  message. \<open>ServerError\<close> is the answer of a \<^verbatim>\<open>catch\<close> block (status 500).
\<close>

datatype error =
    Unauthorized
  | Forbidden
  | EventNotFound
  | GuestInvalid
  | CodeRequired
  | CodeInvalid
  | CodeWrongEvent
  | NoTierSelected
  | TierInvalid
  | TierPermissionDenied
  | TierQuotaExhausted int
  | NameAndDateRequired
  | EventFull int
  | NoFile
  | GuestNameRequired
  | InvalidData
  | TierNotFound
  | ServerError

definition canBypassOwnership :: "role \<Rightarrow> bool" where
  "canBypassOwnership r = (r = admin \<or> r = super_admin)"

text \<open>The middleware \<^verbatim>\<open>requireRole(...roles)\<close>; \<open>session\<close> is \<^verbatim>\<open>req.session.userId\<close>.\<close>

definition requireRole :: "role list \<Rightarrow> db \<Rightarrow> ident option \<Rightarrow> error + user" where
  "requireRole roles d session =
     (case session of
        None \<Rightarrow> Inl Unauthorized
      | Some uid \<Rightarrow>
          if uid = [] then Inl Unauthorized
          else (case getUser d uid of
                  None \<Rightarrow> Inl Forbidden
                | Some usr \<Rightarrow> if u_role usr \<in> set roles then Inr usr else Inl Forbidden))"

subsection \<open>POST /api/events\<close>

text \<open>
  The fields of the request body that the handler reads. \<^verbatim>\<open>new Date(req.body.date)\<close> of
  a non-empty text that is no date is an invalid date object: it is truthy, passes the
  required-field check and makes the insert throw.
\<close>

datatype dateField = DateAbsent | DateInvalid | DateAt nat






subsection \<open>Guest capacity\<close>

text \<open>
  The guard \<^verbatim>\<open>if (event.capacityTierId) { tier = ...; if (tier && !tier.isUnlimited &&
  tier.maxGuests) ...\<close> that both guest routes share: the limit that applies to the
  event, if any. A \<^verbatim>\<open>maxGuests\<close> of 0 is falsy, like \<^verbatim>\<open>null\<close>.
\<close>

definition tierLimit :: "db \<Rightarrow> event \<Rightarrow> int option" where
  "tierLimit d ev =
     (case e_capacityTierId ev of
        None \<Rightarrow> None
      | Some tid \<Rightarrow>
          if tid = [] then None
          else (case getCapacityTier d tid of
                  None \<Rightarrow> None
                | Some tier \<Rightarrow>
                    if isUnlimited tier then None
                    else (case maxGuests tier of
                            None \<Rightarrow> None
                          | Some m \<Rightarrow> if m = 0 then None else Some m)))"

subsection \<open>POST /api/events/:id/guests\<close>

record guestBody =
  gb_name :: "string option"
  gb_phone :: "string option"
  gb_category :: "string option"
  gb_companions :: "int option"
  gb_notes :: "string option"

text \<open>
  \<^verbatim>\<open>String.prototype.trim\<close>. A \<open>char\<close> is a UTF-16 code unit below 256; the code units
  among them that \<^verbatim>\<open>trim\<close> removes are tab, line feed, vertical tab, form feed, carriage
  return, space and the no-break space U+00A0.
\<close>

definition isWhite :: "char \<Rightarrow> bool" where
  "isWhite c =
     (c \<in> set [CHR '' '', CHR 0x09, CHR 0x0A, CHR 0x0B, CHR 0x0C, CHR 0x0D, CHR 0xA0])"

definition trim :: "string \<Rightarrow> string" where
  "trim s = rev (dropWhile isWhite (rev (dropWhile isWhite s)))"

text \<open>\<^verbatim>\<open>x || dflt\<close> for a text field.\<close>

definition orElse :: "string option \<Rightarrow> string \<Rightarrow> string" where
  "orElse x dflt = (case x of None \<Rightarrow> dflt | Some s \<Rightarrow> if s = [] then dflt else s)"

definition postGuests ::
  "db \<Rightarrow> ident option \<Rightarrow> ident \<Rightarrow> guestBody \<Rightarrow> 8 word list \<Rightarrow> ident \<Rightarrow> error + guest \<times> db" where
  "postGuests d session eid body bytes newId =
     (case requireRole [event_manager, admin, super_admin] d session of
        Inl e \<Rightarrow> Inl e
      | Inr usr \<Rightarrow>
          (case getEvent d eid of
             None \<Rightarrow> Inl EventNotFound
           | Some ev \<Rightarrow>
               if \<not> canBypassOwnership (u_role usr) \<and> eventManagerId ev \<noteq> u_id usr
               then Inl Forbidden
               else (case (case tierLimit d ev of
                             None \<Rightarrow> None
                           | Some m \<Rightarrow>
                               if int (length (getGuestsByEvent d eid)) \<ge> m
                               then Some (EventFull m) else None) of
                       Some e \<Rightarrow> Inl e
                     | None \<Rightarrow>
                         if \<not> truthy (gb_name body) \<or> trim (orElse (gb_name body) []) = []
                         then Inl GuestNameRequired
                         else (case createGuest d
                                      (guestRow newId eid
                                         \<lparr>f_name = trim (orElse (gb_name body) []),
                                          f_phone = orElse (gb_phone body) [],
                                          f_category = orElse (gb_category body) ''regular'',
                                          f_companions =
                                            (case gb_companions body of None \<Rightarrow> 0 | Some n \<Rightarrow> n),
                                          f_notes = orElse (gb_notes body) []\<rparr>
                                         (generateAccessCode bytes)) of
                                 None \<Rightarrow> Inl ServerError
                               | Some (g, d') \<Rightarrow>
                                   Inr (g, createAuditLog d'
                                         \<lparr>l_eventId = Some eid, l_userId = u_id usr,
                                          action = ''add_guest'',
                                          l_guestId = Some (g_id g)\<rparr>)))))"

subsection \<open>POST /api/events/:id/upload-guests\<close>


subsection \<open>The check-in routes\<close>

text \<open>
  The answers of a check-in that are not errors: \<^verbatim>\<open>status: "success"\<close> with the
  updated guest, and \<^verbatim>\<open>status: "duplicate"\<close> with the guest as read, its
  \<^verbatim>\<open>checkedInAt\<close> and the name of the user \<^verbatim>\<open>checkedInBy\<close> points to.
\<close>

datatype checkInResult =
    Success "guest option"
  | Duplicate guest "nat option" string

text \<open>Stands for the Arabic text the source sends when the user cannot be named.\<close>

definition unknownName :: string where
  "unknownName = ''unknown''"

text \<open>The block "Verify access to this event"; \<open>False\<close> is the 403 answer.\<close>

definition eventAccess :: "db \<Rightarrow> user \<Rightarrow> guest \<Rightarrow> bool" where
  "eventAccess d usr g =
     (if u_role usr = organizer
      then list_ex (\<lambda>e. e_id e = g_eventId g) (getOrganizerEvents d (u_id usr))
      else if u_role usr = event_manager
      then (case getEvent d (g_eventId g) of
              None \<Rightarrow> False
            | Some ev \<Rightarrow> eventManagerId ev = u_id usr)
      else True)"

definition duplicateAnswer :: "db \<Rightarrow> guest \<Rightarrow> checkInResult" where
  "duplicateAnswer d g =
     (let checkedInByUser =
            (case checkedInBy g of
               None \<Rightarrow> None
             | Some uid \<Rightarrow> if uid = [] then None else getUser d uid)
      in Duplicate g (checkedInAt g)
           (case checkedInByUser of
              None \<Rightarrow> unknownName
            | Some u \<Rightarrow> if u_name u = [] then unknownName else u_name u))"

definition checkInAudit :: "user \<Rightarrow> guest \<Rightarrow> auditLog" where
  "checkInAudit usr g =
     \<lparr>l_eventId = Some (g_eventId g), l_userId = u_id usr, action = ''check_in'',
      l_guestId = Some (g_id g)\<rparr>"

text \<open>
  What both routes do once access is granted: \<open>g\<close> is the guest as read at the start of
  the request, \<open>gid\<close> the id handed to \<^verbatim>\<open>checkInGuest\<close>.
\<close>

definition checkInTail :: "db \<Rightarrow> user \<Rightarrow> guest \<Rightarrow> ident \<Rightarrow> nat \<Rightarrow> checkInResult \<times> db" where
  "checkInTail d usr g gid now =
     (if isCheckedIn g then (duplicateAnswer d g, d)
      else (case checkInGuest d gid (u_id usr) now of
              (updatedGuest, d') \<Rightarrow> (Success updatedGuest, createAuditLog d' (checkInAudit usr g))))"

definition allRoles :: "role list" where
  "allRoles = [organizer, event_manager, admin, super_admin]"

text \<open>POST /api/guests/:id/check-in.\<close>

definition postCheckIn ::
  "db \<Rightarrow> ident option \<Rightarrow> ident \<Rightarrow> nat \<Rightarrow> error + checkInResult \<times> db" where
  "postCheckIn d session gid now =
     (case requireRole allRoles d session of
        Inl e \<Rightarrow> Inl e
      | Inr usr \<Rightarrow>
          (case getGuest d gid of
             None \<Rightarrow> Inl GuestInvalid
           | Some g \<Rightarrow>
               if \<not> eventAccess d usr g then Inl Forbidden
               else Inr (checkInTail d usr g gid now)))"

text \<open>\<^verbatim>\<open>String.prototype.toUpperCase\<close> on ASCII letters.\<close>

definition toUpperCase :: "string \<Rightarrow> string" where
  "toUpperCase s =
     map (\<lambda>c. if 97 \<le> (of_char c :: nat) \<and> (of_char c :: nat) \<le> 122
               then char_of ((of_char c :: nat) - 32) else c) s"

text \<open>POST /api/check-in/code, with the body fields \<^verbatim>\<open>code\<close> and \<^verbatim>\<open>eventId\<close>.\<close>

definition postCheckInCode ::
  "db \<Rightarrow> ident option \<Rightarrow> string option \<Rightarrow> ident option \<Rightarrow> nat
     \<Rightarrow> error + checkInResult \<times> db" where
  "postCheckInCode d session code eventId now =
     (case requireRole allRoles d session of
        Inl e \<Rightarrow> Inl e
      | Inr usr \<Rightarrow>
          if \<not> truthy code then Inl CodeRequired
          else (case getGuestByQrCode d (toUpperCase (orElse code [])) of
                  None \<Rightarrow> Inl CodeInvalid
                | Some g \<Rightarrow>
                    if truthy eventId \<and> Some (g_eventId g) \<noteq> eventId then Inl CodeWrongEvent
                    else if \<not> eventAccess d usr g then Inl Forbidden
                    else Inr (checkInTail d usr g (g_id g) now)))"

subsection \<open>Requests in flight\<close>

text \<open>
  The handler of POST /api/guests/:id/check-in is an \<^verbatim>\<open>async\<close> function: at every
  \<^verbatim>\<open>await\<close> of a storage call another request may run. The program counter below cuts
  the handler at the storage call that writes: \<open>Start\<close> does the reads up to the access
  check and keeps the guest that was read, \<open>Fetched\<close> tests the flag of that guest and
  either answers "duplicate" or runs \<^verbatim>\<open>checkInGuest\<close>, \<open>Updated\<close> writes the audit row and
  answers "success".
\<close>

datatype pc =
    Start
  | Fetched user guest
  | Updated user guest "guest option"
  | Finished "error + checkInResult"

record request =
  r_session :: "ident option"
  r_guestId :: ident
  r_now :: nat

definition step :: "request \<Rightarrow> db \<times> pc \<Rightarrow> db \<times> pc" where
  "step r s =
     (case s of
        (d, Start) \<Rightarrow>
          (case requireRole allRoles d (r_session r) of
             Inl e \<Rightarrow> (d, Finished (Inl e))
           | Inr usr \<Rightarrow>
               (case getGuest d (r_guestId r) of
                  None \<Rightarrow> (d, Finished (Inl GuestInvalid))
                | Some g \<Rightarrow>
                    if \<not> eventAccess d usr g then (d, Finished (Inl Forbidden))
                    else (d, Fetched usr g)))
      | (d, Fetched usr g) \<Rightarrow>
          if isCheckedIn g then (d, Finished (Inr (duplicateAnswer d g)))
          else (case checkInGuest d (r_guestId r) (u_id usr) (r_now r) of
                  (updatedGuest, d') \<Rightarrow> (d', Updated usr g updatedGuest))
      | (d, Updated usr g updatedGuest) \<Rightarrow>
          (createAuditLog d (checkInAudit usr g), Finished (Inr (Success updatedGuest)))
      | (d, Finished a) \<Rightarrow> (d, Finished a))"

text \<open>
  A schedule names, step by step, the request that runs next; the requests share the
  database.
\<close>

fun run :: "request list \<Rightarrow> nat list \<Rightarrow> db \<times> pc list \<Rightarrow> db \<times> pc list" where
  "run rs [] s = s"
| "run rs (i # sched) (d, pcs) =
     (if i < length pcs \<and> i < length rs
      then (case step (rs ! i) (d, pcs ! i) of (d', p) \<Rightarrow> run rs sched (d', pcs[i := p]))
      else run rs sched (d, pcs))"

subsection \<open>POST /api/capacity-tiers\<close>










subsection \<open>PATCH /api/capacity-tiers/:id\<close>


subsection \<open>Sequences of quota operations\<close>

text \<open>
  The storage layer changes the quota table through \<^verbatim>\<open>setUserTierQuota\<close> and
  \<^verbatim>\<open>deleteUserTierQuotas\<close> only. \<open>applyQuotaOps\<close> runs a list of such calls, one after
  the other.
\<close>

datatype quotaOp = SetQuota ident ident int | DeleteQuotas ident

fun applyQuotaOps :: "quotaOp list \<Rightarrow> db \<Rightarrow> db" where
  "applyQuotaOps [] d = d"
| "applyQuotaOps (SetQuota uid tid n # ops) d = applyQuotaOps ops (snd (setUserTierQuota d uid tid n))"
| "applyQuotaOps (DeleteQuotas uid # ops) d = applyQuotaOps ops (deleteUserTierQuotas d uid)"

definition pairRows :: "db \<Rightarrow> ident \<Rightarrow> ident \<Rightarrow> userTierQuota list" where
  "pairRows d uid tid =
     filter (\<lambda>q. q_userId q = uid \<and> q_capacityTierId q = tid) (userTierQuotas d)"

definition quotaKey :: "userTierQuota \<Rightarrow> ident \<times> ident" where
  "quotaKey q = (q_userId q, q_capacityTierId q)"

section \<open>Vocabulary of the properties\<close>




definition isCreated :: "error + 'a \<Rightarrow> bool" where
  "isCreated r = (case r of Inl e \<Rightarrow> False | Inr x \<Rightarrow> True)"

text \<open>A small database on which the properties are exercised.\<close>

definition demoEvent1 :: event where
  "demoEvent1 =
     \<lparr>e_id = ''e1'', e_name = ''Wedding'', e_date = 100, eventManagerId = ''m1'',
      e_capacityTierId = Some ''small'', e_isActive = True\<rparr>"

definition demoEvent2 :: event where
  "demoEvent2 =
     \<lparr>e_id = ''e2'', e_name = ''Launch'', e_date = 200, eventManagerId = ''m1'',
      e_capacityTierId = Some ''zero'', e_isActive = True\<rparr>"

definition demoEvent3 :: event where
  "demoEvent3 =
     \<lparr>e_id = ''e3'', e_name = ''Fair'', e_date = 300, eventManagerId = ''m2'',
      e_capacityTierId = Some ''open'', e_isActive = True\<rparr>"

definition demoEvent4 :: event where
  "demoEvent4 =
     \<lparr>e_id = ''e4'', e_name = ''Dinner'', e_date = 400, eventManagerId = ''m2'',
      e_capacityTierId = Some ''small'', e_isActive = True\<rparr>"

definition demoGuest1 :: guest where
  "demoGuest1 =
     \<lparr>g_id = ''g1'', g_eventId = ''e1'',
      g_fields = \<lparr>f_name = ''Huda'', f_phone = [], f_category = ''vip'', f_companions = 1,
                  f_notes = []\<rparr>,
      qrCode = ''AAAA-AAAA-AAAA'', isCheckedIn = False, checkedInAt = None,
      checkedInBy = None\<rparr>"

definition demoGuest2 :: guest where
  "demoGuest2 =
     \<lparr>g_id = ''g2'', g_eventId = ''e1'',
      g_fields = \<lparr>f_name = ''Sami'', f_phone = [], f_category = ''regular'',
                  f_companions = 0, f_notes = []\<rparr>,
      qrCode = ''BBBB-BBBB-BBBB'', isCheckedIn = True, checkedInAt = Some 5,
      checkedInBy = Some ''o1''\<rparr>"

definition demoGuest3 :: guest where
  "demoGuest3 =
     \<lparr>g_id = ''g3'', g_eventId = ''e3'',
      g_fields = \<lparr>f_name = ''Hani'', f_phone = [], f_category = ''media'', f_companions = 0,
                  f_notes = []\<rparr>,
      qrCode = ''HHHH-HHHH-HHHH'', isCheckedIn = False, checkedInAt = None,
      checkedInBy = None\<rparr>"

definition demoTierSmall :: capacityTier where
  "demoTierSmall =
     \<lparr>t_id = ''small'', t_name = ''Small'', minGuests = 0, maxGuests = Some 2,
      isUnlimited = False, t_isActive = True, sortOrder = 1\<rparr>"

definition demoDb :: db where
  "demoDb =
     \<lparr>users =
        [\<lparr>u_id = ''root'', u_name = ''Root'', u_role = super_admin\<rparr>,
         \<lparr>u_id = ''adm'', u_name = ''Admin'', u_role = admin\<rparr>,
         \<lparr>u_id = ''m1'', u_name = ''Mona'', u_role = event_manager\<rparr>,
         \<lparr>u_id = ''m2'', u_name = ''Majid'', u_role = event_manager\<rparr>,
         \<lparr>u_id = ''o1'', u_name = ''Omar'', u_role = organizer\<rparr>,
         \<lparr>u_id = ''o2'', u_name = ''Ola'', u_role = organizer\<rparr>],
      events = [demoEvent1, demoEvent2, demoEvent3, demoEvent4],
      guests = [demoGuest3, demoGuest1, demoGuest2],
      eventOrganizers = [\<lparr>a_eventId = ''e1'', organizerId = ''o1''\<rparr>],
      auditLogs = [],
      capacityTiers =
        [demoTierSmall,
         \<lparr>t_id = ''open'', t_name = ''Open'', minGuests = 0, maxGuests = None,
          isUnlimited = True, t_isActive = True, sortOrder = 2\<rparr>,
         \<lparr>t_id = ''zero'', t_name = ''Zero'', minGuests = 0, maxGuests = Some 0,
          isUnlimited = False, t_isActive = True, sortOrder = 3\<rparr>,
         \<lparr>t_id = ''old'', t_name = ''Old'', minGuests = 0, maxGuests = Some 9,
          isUnlimited = False, t_isActive = False, sortOrder = 4\<rparr>],
      userTierQuotas =
        [\<lparr>q_userId = ''m1'', q_capacityTierId = ''small'', quota = 2\<rparr>,
         \<lparr>q_userId = ''m2'', q_capacityTierId = ''open'', quota = 1\<rparr>]\<rparr>"





text \<open>Sample inputs of the guest routes.\<close>

definition demoGuestBody :: guestBody where
  "demoGuestBody =
     \<lparr>gb_name = Some ''Nora'', gb_phone = None, gb_category = None, gb_companions = None,
      gb_notes = None\<rparr>"

definition demoBytes :: "8 word list" where
  "demoBytes = [0, 1, 2, 3, 31, 32, 33, 64, 100, 200, 254, 255]"





text \<open>
  The vocabulary of the capacity claims. \<open>hasTierMax d ev M\<close>: the tier of the event
  resolves, is not unlimited and has \<^verbatim>\<open>maxGuests\<close> \<open>M\<close>. \<open>noTierLimit d ev\<close>: the event
  has no tier, or a tier that does not resolve, or an unlimited tier.
\<close>

definition hasTierMax :: "db \<Rightarrow> event \<Rightarrow> int \<Rightarrow> bool" where
  "hasTierMax d ev M =
     (case e_capacityTierId ev of
        None \<Rightarrow> False
      | Some tid \<Rightarrow>
          tid \<noteq> [] \<and>
          (case find (\<lambda>t. t_id t = tid) (capacityTiers d) of
             None \<Rightarrow> False
           | Some tier \<Rightarrow> \<not> isUnlimited tier \<and> maxGuests tier = Some M))"

definition noTierLimit :: "db \<Rightarrow> event \<Rightarrow> bool" where
  "noTierLimit d ev =
     (case e_capacityTierId ev of
        None \<Rightarrow> True
      | Some tid \<Rightarrow>
          tid = [] \<or>
          (case find (\<lambda>t. t_id t = tid) (capacityTiers d) of None \<Rightarrow> True | Some tier \<Rightarrow> isUnlimited tier))"

text \<open>The row and the audit entry of a single-guest add.\<close>

definition addRow :: "ident \<Rightarrow> ident \<Rightarrow> guestBody \<Rightarrow> 8 word list \<Rightarrow> guest" where
  "addRow newId eid body bytes =
     guestRow newId eid
       \<lparr>f_name = trim (orElse (gb_name body) []),
        f_phone = orElse (gb_phone body) [],
        f_category = orElse (gb_category body) ''regular'',
        f_companions = (case gb_companions body of None \<Rightarrow> 0 | Some n \<Rightarrow> n),
        f_notes = orElse (gb_notes body) []\<rparr>
       (generateAccessCode bytes)"

definition addAudit :: "user \<Rightarrow> ident \<Rightarrow> ident \<Rightarrow> auditLog" where
  "addAudit usr eid gid =
     \<lparr>l_eventId = Some eid, l_userId = u_id usr, action = ''add_guest'', l_guestId = Some gid\<rparr>"


text \<open>
  The vocabulary of the check-in claims. A \<open>call\<close> is one request to one of the two
  check-in routes, \<open>runCalls\<close> serves a list of calls one after the other.
  \<open>callFor d g c\<close>: in the database \<open>d\<close> the call \<open>c\<close> comes from a signed-in user of a
  permitted role, resolves to the guest \<open>g\<close> (by id, or by access code with no or a
  matching event hint) and passes the access check for the event of \<open>g\<close>.
  \<open>checkedInByName\<close> is the name the "duplicate" answer carries.
\<close>

datatype call =
    ById "ident option" ident nat
  | ByCode "ident option" "string option" "ident option" nat

fun doCall :: "db \<Rightarrow> call \<Rightarrow> error + checkInResult \<times> db" where
  "doCall d (ById session gid now) = postCheckIn d session gid now"
| "doCall d (ByCode session code eventId now) = postCheckInCode d session code eventId now"

fun runCalls :: "db \<Rightarrow> call list \<Rightarrow> (error + checkInResult) list \<times> db" where
  "runCalls d [] = ([], d)"
| "runCalls d (c # cs) =
     (case doCall d c of
        Inl e \<Rightarrow> (case runCalls d cs of (answers, d') \<Rightarrow> (Inl e # answers, d'))
      | Inr (a, d1) \<Rightarrow> (case runCalls d1 cs of (answers, d') \<Rightarrow> (Inr a # answers, d')))"

fun callFor :: "db \<Rightarrow> guest \<Rightarrow> call \<Rightarrow> bool" where
  "callFor d g (ById session gid now) =
     (case requireRole allRoles d session of
        Inl e \<Rightarrow> False
      | Inr usr \<Rightarrow> getGuest d gid = Some g \<and> eventAccess d usr g)"
| "callFor d g (ByCode session code eventId now) =
     (case requireRole allRoles d session of
        Inl e \<Rightarrow> False
      | Inr usr \<Rightarrow>
          truthy code \<and> getGuestByQrCode d (toUpperCase (orElse code [])) = Some g
          \<and> (\<not> truthy eventId \<or> eventId = Some (g_eventId g))
          \<and> eventAccess d usr g)"

definition checkedInByName :: "db \<Rightarrow> guest \<Rightarrow> string" where
  "checkedInByName d g =
     (case checkedInBy g of
        None \<Rightarrow> unknownName
      | Some uid \<Rightarrow>
          if uid = [] then unknownName
          else (case getUser d uid of
                  None \<Rightarrow> unknownName
                | Some u \<Rightarrow> if u_name u = [] then unknownName else u_name u))"

text \<open>The kind of answer a request in flight has reached.\<close>

datatype kind = KRunning | KError | KSuccess | KDuplicate

fun kindOf :: "pc \<Rightarrow> kind" where
  "kindOf (Finished (Inr (Success g))) = KSuccess"
| "kindOf (Finished (Inr (Duplicate g t n))) = KDuplicate"
| "kindOf (Finished (Inl e)) = KError"
| "kindOf p = KRunning"

text \<open>
  Two check-in requests for the pending guest \<open>g1\<close> of the sample database, one by the
  organizer of the event and one by an administrator.
\<close>

definition demoRequests :: "request list" where
  "demoRequests =
     [\<lparr>r_session = Some ''o1'', r_guestId = ''g1'', r_now = 10\<rparr>,
      \<lparr>r_session = Some ''adm'', r_guestId = ''g1'', r_now = 11\<rparr>]"

definition demoOla :: user where
  "demoOla = \<lparr>u_id = ''o2'', u_name = ''Ola'', u_role = organizer\<rparr>"


definition demoCalls :: "call list" where
  "demoCalls =
     [ById (Some ''o1'') ''g2'' 20,
      ByCode (Some ''adm'') (Some ''bbbb-bbbb-bbbb'') None 21,
      ByCode (Some ''m1'') (Some ''BBBB-BBBB-BBBB'') (Some ''e1'') 22]"






text \<open>
  An acting user without a permitted relationship to the event \<open>eid\<close>, in the words of the
  claim: the user manages no event row with that id, no assignment row makes the user
  an organizer of it, and the role is neither admin nor super_admin.
\<close>

definition lacksRelation :: "db \<Rightarrow> user \<Rightarrow> ident \<Rightarrow> bool" where
  "lacksRelation d usr eid =
     (\<not> list_ex (\<lambda>ev. e_id ev = eid \<and> eventManagerId ev = u_id usr) (events d)
      \<and> \<not> list_ex (\<lambda>a. a_eventId a = eid \<and> organizerId a = u_id usr) (eventOrganizers d)
      \<and> u_role usr \<noteq> admin \<and> u_role usr \<noteq> super_admin)"

definition demoMajid :: user where
  "demoMajid = \<lparr>u_id = ''m2'', u_name = ''Majid'', u_role = event_manager\<rparr>"


section \<open>Properties of the access code\<close>

lemma chars_length: "length chars = 32"
  by (simp add: chars_def)

lemma chars_distinct: "distinct chars"
  by (simp add: chars_def)

lemma pick_in_range:
  assumes "i < length bytes"
  shows "\<exists>c. pick bytes i = [c] \<and> c \<in> set chars"
proof -
  have "unat (bytes ! i) mod length chars < length chars"
    by (simp add: chars_length)
  then have "chars ! (unat (bytes ! i) mod length chars) \<in> set chars"
    by (rule nth_mem)
  with assms show ?thesis by (simp add: pick_def)
qed

lemma loop_invariant:
  assumes "\<forall>i \<in> set is. i < length bytes"
  shows "length (foldl (\<lambda>code i. code @ pick bytes i) acc is) = length acc + length is
       \<and> set (foldl (\<lambda>code i. code @ pick bytes i) acc is) \<subseteq> set acc \<union> set chars"
  using assms
proof (induction "is" arbitrary: acc)
  case Nil
  then show ?case by simp
next
  case (Cons i "is")
  from Cons.prems have "i < length bytes" by simp
  then obtain c where c: "pick bytes i = [c]" "c \<in> set chars"
    using pick_in_range by blast
  from Cons.prems have rest: "\<forall>j \<in> set is. j < length bytes" by simp
  have step: "foldl (\<lambda>code i. code @ pick bytes i) acc (i # is)
      = foldl (\<lambda>code i. code @ pick bytes i) (acc @ [c]) is"
    using c by simp
  from Cons.IH [OF rest, of "acc @ [c]"] c(2) show ?case
    unfolding step by auto
qed

lemma loop_result:
  assumes "length bytes = 12"
  shows "length (foldl (\<lambda>code i. code @ pick bytes i) [] [0..<12]) = 12
       \<and> set (foldl (\<lambda>code i. code @ pick bytes i) [] [0..<12]) \<subseteq> set chars"
proof -
  have "\<forall>i \<in> set [0..<12]. i < length bytes" using assms by simp
  from loop_invariant [OF this, of "[]"] show ?thesis by simp
qed

text \<open>
  Claim C9. For every twelve random bytes the generated access code is three groups of
  four characters separated by dashes, fourteen characters in all, and every character
  of a group comes from the alphabet, which has thirty-two distinct characters and
  contains none of 0, O, 1 and I.
\<close>

theorem generateAccessCode_format:
  assumes "length bytes = 12"
  shows "(\<exists>a b c. generateAccessCode bytes = a @ ''-'' @ b @ ''-'' @ c
            \<and> length a = 4 \<and> length b = 4 \<and> length c = 4
            \<and> set (a @ b @ c) \<subseteq> set chars)
       \<and> length (generateAccessCode bytes) = 14
       \<and> length chars = 32 \<and> distinct chars
       \<and> set ''0O1I'' \<inter> set chars = {}"
proof -
  define code where "code = foldl (\<lambda>code i. code @ pick bytes i) [] [0..<12]"
  have len: "length code = 12" and sub: "set code \<subseteq> set chars"
    using loop_result [OF assms] by (simp_all add: code_def)
  have gen: "generateAccessCode bytes
               = slice_js 0 4 code @ ''-'' @ slice_js 4 8 code @ ''-'' @ slice_js 8 12 code"
    by (simp add: generateAccessCode_def code_def Let_def)
  have l1: "length (slice_js 0 4 code) = 4" using len by (simp add: slice_js_def)
  have l2: "length (slice_js 4 8 code) = 4" using len by (simp add: slice_js_def)
  have l3: "length (slice_js 8 12 code) = 4" using len by (simp add: slice_js_def)
  have s: "set (slice_js a b code) \<subseteq> set chars" for a b
    using sub set_take_subset set_drop_subset unfolding slice_js_def by fast
  have groups: "\<exists>a b c. generateAccessCode bytes = a @ ''-'' @ b @ ''-'' @ c
           \<and> length a = 4 \<and> length b = 4 \<and> length c = 4
           \<and> set (a @ b @ c) \<subseteq> set chars"
    using gen l1 l2 l3 s by (intro exI [of _ "slice_js _ _ code"]) auto
  have total: "length (generateAccessCode bytes) = 14"
    using gen l1 l2 l3 by simp
  have excl: "set ''0O1I'' \<inter> set chars = {}"
    by (simp add: chars_def)
  from groups total chars_length chars_distinct excl show ?thesis by blast
qed

theorem generateAccessCode_format_witness:
  "length [0, 1, 2, 3, 31, 32, 33, 64, 100, 200, 254, 255 :: 8 word] = 12
   \<and> length (generateAccessCode [0, 1, 2, 3, 31, 32, 33, 64, 100, 200, 254, 255]) = 14"
  using generateAccessCode_format [of "[0, 1, 2, 3, 31, 32, 33, 64, 100, 200, 254, 255]"]
  by simp

section \<open>The quota table\<close>

lemma filter_map_commute:
  "(\<And>x. P (f x) = P x) \<Longrightarrow> filter P (map f xs) = map f (filter P xs)"
  by (induction xs) auto

lemma find_filter_hd: "filter P xs = y # ys \<Longrightarrow> find P xs = Some y"
  by (induction xs) (auto split: if_splits)

lemma filter_key_le1:
  "distinct (map quotaKey xs) \<Longrightarrow> length (filter (\<lambda>q. quotaKey q = k) xs) \<le> 1"
proof (induction xs)
  case Nil
  then show ?case by simp
next
  case (Cons x xs)
  show ?case
  proof (cases "quotaKey x = k")
    case True
    with Cons.prems have "\<forall>q \<in> set xs. quotaKey q \<noteq> k" by (force simp: image_iff)
    then have "filter (\<lambda>q. quotaKey q = k) xs = []" by (simp add: filter_empty_conv)
    with True show ?thesis by simp
  next
    case False
    with Cons show ?thesis by simp
  qed
qed

lemma pairRows_key: "pairRows d u t = filter (\<lambda>q. quotaKey q = (u, t)) (userTierQuotas d)"
  by (simp add: pairRows_def quotaKey_def)

text \<open>No call of the storage layer gives a pair a second row.\<close>

lemma setUserTierQuota_keys:
  assumes "distinct (map quotaKey (userTierQuotas d))"
  shows "distinct (map quotaKey (userTierQuotas (snd (setUserTierQuota d u t n))))"
proof (cases "pairRows d u t = []")
  case True
  then have "\<forall>q \<in> set (userTierQuotas d). quotaKey q \<noteq> (u, t)"
    by (simp add: pairRows_key filter_empty_conv)
  then have "(u, t) \<notin> set (map quotaKey (userTierQuotas d))" by auto
  with assms True show ?thesis
    by (simp add: setUserTierQuota_def pairRows_def Let_def quotaKey_def)
next
  case False
  have "quotaKey \<circ> (\<lambda>q. if q_userId q = u \<and> q_capacityTierId q = t
                                    then q\<lparr>quota := n\<rparr> else q) = quotaKey"
    by (auto simp: fun_eq_iff quotaKey_def)
  with assms False show ?thesis
    by (simp add: setUserTierQuota_def pairRows_def Let_def)
qed

lemma deleteUserTierQuotas_keys:
  assumes "distinct (map quotaKey (userTierQuotas d))"
  shows "distinct (map quotaKey (userTierQuotas (deleteUserTierQuotas d u)))"
  using assms by (simp add: deleteUserTierQuotas_def distinct_map_filter)

lemma applyQuotaOps_keys:
  "distinct (map quotaKey (userTierQuotas d)) \<Longrightarrow>
   distinct (map quotaKey (userTierQuotas (applyQuotaOps ops d)))"
proof (induction ops d rule: applyQuotaOps.induct)
  case (1 d)
  then show ?case by simp
next
  case (2 uid tid n ops d)
  then show ?case by (simp add: setUserTierQuota_keys)
next
  case (3 uid ops d)
  then show ?case by (simp add: deleteUserTierQuotas_keys)
qed

lemma setUserTierQuota_single:
  assumes "distinct (map quotaKey (userTierQuotas d))"
  shows "pairRows (snd (setUserTierQuota d u t n)) u t
           = [\<lparr>q_userId = u, q_capacityTierId = t, quota = n\<rparr>]
       \<and> fst (setUserTierQuota d u t n) = Some \<lparr>q_userId = u, q_capacityTierId = t, quota = n\<rparr>"
proof (cases "pairRows d u t = []")
  case True
  then show ?thesis
    by (simp add: setUserTierQuota_def pairRows_def Let_def)
next
  case False
  let ?P = "\<lambda>q. q_userId q = u \<and> q_capacityTierId q = t"
  let ?upd = "\<lambda>q. if ?P q then q\<lparr>quota := n\<rparr> else q"
  have le: "length (pairRows d u t) \<le> 1"
    using filter_key_le1 [OF assms] by (simp add: pairRows_key)
  with False obtain q where q: "pairRows d u t = [q]"
    by (cases "pairRows d u t") auto
  then have "q \<in> set (filter ?P (userTierQuotas d))" by (simp add: pairRows_def)
  then have qk: "q_userId q = u" "q_capacityTierId q = t" by auto
  have "filter ?P (map ?upd (userTierQuotas d)) = map ?upd (filter ?P (userTierQuotas d))"
    by (rule filter_map_commute) simp
  then have rows: "filter ?P (map ?upd (userTierQuotas d)) = [q\<lparr>quota := n\<rparr>]"
    using q qk by (simp add: pairRows_def)
  have row: "q\<lparr>quota := n\<rparr> = \<lparr>q_userId = u, q_capacityTierId = t, quota = n\<rparr>"
    using qk by (cases q) simp
  from False rows row find_filter_hd [OF rows] show ?thesis
    by (simp add: setUserTierQuota_def pairRows_def Let_def)
qed

text \<open>
  Claim C6. Start from an empty quota table and run any sequence of
  \<^verbatim>\<open>setUserTierQuota\<close> and \<^verbatim>\<open>deleteUserTierQuotas\<close> calls. Then
  \<^verbatim>\<open>setUserTierQuota(u, t, n)\<close> followed by \<^verbatim>\<open>setUserTierQuota(u, t, m)\<close> (the claim's 5 and
  3) leaves exactly one row for the pair \<open>(u, t)\<close>, and its quota is \<open>m\<close>: the second
  call overwrites, it neither appends a row nor adds the values. The second call also
  returns that row.
\<close>

theorem setUserTierQuota_upsert:
  "pairRows (snd (setUserTierQuota (snd (setUserTierQuota
        (applyQuotaOps ops (d0\<lparr>userTierQuotas := []\<rparr>)) u t n)) u t m)) u t
     = [\<lparr>q_userId = u, q_capacityTierId = t, quota = m\<rparr>]
   \<and> fst (setUserTierQuota (snd (setUserTierQuota
        (applyQuotaOps ops (d0\<lparr>userTierQuotas := []\<rparr>)) u t n)) u t m)
     = Some \<lparr>q_userId = u, q_capacityTierId = t, quota = m\<rparr>"
proof -
  have "distinct (map quotaKey (userTierQuotas (d0\<lparr>userTierQuotas := []\<rparr>)))" by simp
  then have "distinct (map quotaKey (userTierQuotas
               (applyQuotaOps ops (d0\<lparr>userTierQuotas := []\<rparr>))))"
    by (rule applyQuotaOps_keys)
  then have "distinct (map quotaKey (userTierQuotas (snd (setUserTierQuota
               (applyQuotaOps ops (d0\<lparr>userTierQuotas := []\<rparr>)) u t n))))"
    by (rule setUserTierQuota_keys)
  from setUserTierQuota_single [OF this] show ?thesis by simp
qed

section \<open>Event creation and the quota gate\<close>

subsection \<open>Facts about the sample database\<close>

lemmas demo_defs =
  demoDb_def demoEvent1_def demoEvent2_def demoEvent3_def demoEvent4_def demoGuest1_def
  demoGuest2_def demoGuest3_def demoTierSmall_def

lemma demo_m1: "requireRole [event_manager, admin, super_admin] demoDb (Some ''m1'')
   = Inr \<lparr>u_id = ''m1'', u_name = ''Mona'', u_role = event_manager\<rparr>"
  by (simp add: requireRole_def getUser_def demo_defs)


lemma demo_m2: "requireRole [event_manager, admin, super_admin] demoDb (Some ''m2'')
   = Inr \<lparr>u_id = ''m2'', u_name = ''Majid'', u_role = event_manager\<rparr>"
  by (simp add: requireRole_def getUser_def demo_defs)


subsection \<open>Event managers\<close>





subsection \<open>Administrators\<close>



section \<open>Guest capacity\<close>

lemma tierLimit_max: "hasTierMax d ev M \<Longrightarrow> M \<noteq> 0 \<Longrightarrow> tierLimit d ev = Some M"
  by (auto simp: tierLimit_def hasTierMax_def getCapacityTier_def split: option.splits)

lemma tierLimit_none: "noTierLimit d ev \<Longrightarrow> tierLimit d ev = None"
  by (auto simp: tierLimit_def noTierLimit_def getCapacityTier_def split: option.splits)

lemma demo_events:
  "getEvent demoDb ''e1'' = Some demoEvent1" "getEvent demoDb ''e2'' = Some demoEvent2"
  "getEvent demoDb ''e3'' = Some demoEvent3" "getEvent demoDb ''e4'' = Some demoEvent4"
  by (simp_all add: getEvent_def demo_defs)

subsection \<open>Adding one guest\<close>

text \<open>
  Claim C7, as stated, fails for a tier whose \<^verbatim>\<open>maxGuests\<close> is 0. The event \<open>e2\<close> of the
  sample database has the tier \<open>zero\<close>, which resolves, is not unlimited and has
  \<^verbatim>\<open>maxGuests = 0\<close>. Its guest count 0 is at least 0, and still the add is not turned
  down: the guest is created.
\<close>

theorem postGuests_zero_max_counterexample:
  "hasTierMax demoDb demoEvent2 0
   \<and> getEvent demoDb ''e2'' = Some demoEvent2
   \<and> int (length (getGuestsByEvent demoDb ''e2'')) \<ge> 0
   \<and> postGuests demoDb (Some ''m1'') ''e2'' demoGuestBody demoBytes ''g9'' \<noteq> Inl (EventFull 0)
   \<and> isCreated (postGuests demoDb (Some ''m1'') ''e2'' demoGuestBody demoBytes ''g9'')"
  by code_simp

text \<open>
  Claim C7, amended. The acting user may manage the event \<open>ev\<close> with id \<open>eid\<close>. When
  the tier of the event resolves, is not unlimited and has a \<^verbatim>\<open>maxGuests\<close> \<open>M\<close> other than
  0, and the event holds at least \<open>M\<close> guests, the add is answered with the event-full
  error; an error answer carries no new database, the handler has written nothing. When
  the count is below such an \<open>M\<close>, or the event has no tier, a tier that does not
  resolve or an unlimited tier, the guest is created, given a name that is not blank
  and a row the database accepts (unused id and access code, category of the enum,
  companions within the 32-bit range of the column, texts without NUL character): the
  answer is the new row, and the database has that row and one audit entry more.
\<close>

theorem postGuests_capacity:
  assumes "requireRole [event_manager, admin, super_admin] d session = Inr usr"
    and "getEvent d eid = Some ev"
    and "canBypassOwnership (u_role usr) \<or> eventManagerId ev = u_id usr"
  shows "(\<forall>M. hasTierMax d ev M \<and> M \<noteq> 0 \<and> int (length (filter (\<lambda>g. g_eventId g = eid) (guests d))) \<ge> M
              \<longrightarrow> postGuests d session eid body bytes newId = Inl (EventFull M))
       \<and> ((noTierLimit d ev
             \<or> (\<exists>M. hasTierMax d ev M \<and> M \<noteq> 0 \<and> int (length (filter (\<lambda>g. g_eventId g = eid) (guests d))) < M))
           \<and> truthy (gb_name body) \<and> trim (orElse (gb_name body) []) \<noteq> []
           \<and> guestsInsertOk d [addRow newId eid body bytes]
           \<longrightarrow> postGuests d session eid body bytes newId
                 = Inr (addRow newId eid body bytes,
                        createAuditLog (d\<lparr>guests := guests d @ [addRow newId eid body bytes]\<rparr>)
                          (addAudit usr eid newId)))"
proof -
  have full: "postGuests d session eid body bytes newId = Inl (EventFull M)"
    if "hasTierMax d ev M" "M \<noteq> 0" "int (length (filter (\<lambda>g. g_eventId g = eid) (guests d))) \<ge> M" for M
    using that assms tierLimit_max [of d ev M]
    by (simp add: postGuests_def getGuestsByEvent_def)
  have room: "postGuests d session eid body bytes newId
                 = Inr (addRow newId eid body bytes,
                        createAuditLog (d\<lparr>guests := guests d @ [addRow newId eid body bytes]\<rparr>)
                          (addAudit usr eid newId))"
    if lim: "noTierLimit d ev
             \<or> (\<exists>M. hasTierMax d ev M \<and> M \<noteq> 0 \<and> int (length (filter (\<lambda>g. g_eventId g = eid) (guests d))) < M)"
      and nm: "truthy (gb_name body)" "trim (orElse (gb_name body) []) \<noteq> []"
      and ok: "guestsInsertOk d [addRow newId eid body bytes]"
  proof -
    from lim have gate: "(case tierLimit d ev of None \<Rightarrow> None
                           | Some m \<Rightarrow> if int (length (getGuestsByEvent d eid)) \<ge> m
                               then Some (EventFull m) else None) = None"
      using tierLimit_none [of d ev] tierLimit_max [of d ev]
      by (auto simp: getGuestsByEvent_def)
    have id: "g_id (addRow newId eid body bytes) = newId"
      by (simp add: addRow_def guestRow_def)
    from ok have "createGuest d (addRow newId eid body bytes)
       = Some (addRow newId eid body bytes, d\<lparr>guests := guests d @ [addRow newId eid body bytes]\<rparr>)"
      by (simp add: createGuest_def)
    with assms gate nm id show ?thesis
      by (simp add: postGuests_def addRow_def [symmetric] addAudit_def)
  qed
  from full room show ?thesis by blast
qed

text \<open>
  The theorem at work on the sample database: the event \<open>e1\<close> (tier maximum 2, two
  guests) is full, the event \<open>e4\<close> (same tier, no guest) takes the guest.
\<close>

theorem postGuests_capacity_witness:
  "requireRole [event_manager, admin, super_admin] demoDb (Some ''m1'')
     = Inr \<lparr>u_id = ''m1'', u_name = ''Mona'', u_role = event_manager\<rparr>
   \<and> getEvent demoDb ''e1'' = Some demoEvent1
   \<and> eventManagerId demoEvent1 = ''m1''
   \<and> hasTierMax demoDb demoEvent1 2
   \<and> postGuests demoDb (Some ''m1'') ''e1'' demoGuestBody demoBytes ''g9'' = Inl (EventFull 2)
   \<and> hasTierMax demoDb demoEvent4 2
   \<and> int (length (filter (\<lambda>g. g_eventId g = ''e4'') (guests demoDb))) < 2
   \<and> guestsInsertOk demoDb [addRow ''g9'' ''e4'' demoGuestBody demoBytes]
   \<and> postGuests demoDb (Some ''m2'') ''e4'' demoGuestBody demoBytes ''g9''
       = Inr (addRow ''g9'' ''e4'' demoGuestBody demoBytes,
              createAuditLog
                (demoDb\<lparr>guests := guests demoDb @ [addRow ''g9'' ''e4'' demoGuestBody demoBytes]\<rparr>)
                (addAudit \<lparr>u_id = ''m2'', u_name = ''Majid'', u_role = event_manager\<rparr> ''e4'' ''g9''))"
proof -
  have own1: "canBypassOwnership (u_role \<lparr>u_id = ''m1'', u_name = ''Mona'', u_role = event_manager\<rparr>)
              \<or> eventManagerId demoEvent1 = u_id \<lparr>u_id = ''m1'', u_name = ''Mona'', u_role = event_manager\<rparr>"
    by (simp add: demoEvent1_def)
  have own4: "canBypassOwnership (u_role \<lparr>u_id = ''m2'', u_name = ''Majid'', u_role = event_manager\<rparr>)
              \<or> eventManagerId demoEvent4 = u_id \<lparr>u_id = ''m2'', u_name = ''Majid'', u_role = event_manager\<rparr>"
    by (simp add: demoEvent4_def)
  have max1: "hasTierMax demoDb demoEvent1 2" by code_simp
  have cnt1: "int (length (filter (\<lambda>g. g_eventId g = ''e1'') (guests demoDb))) \<ge> 2" by code_simp
  have max4: "hasTierMax demoDb demoEvent4 2" by code_simp
  have cnt4: "int (length (filter (\<lambda>g. g_eventId g = ''e4'') (guests demoDb))) < 2" by code_simp
  have nm: "truthy (gb_name demoGuestBody)" "trim (orElse (gb_name demoGuestBody) []) \<noteq> []"
    by code_simp+
  have ok: "guestsInsertOk demoDb [addRow ''g9'' ''e4'' demoGuestBody demoBytes]" by code_simp
  have own: "eventManagerId demoEvent1 = ''m1''" by (simp add: demoEvent1_def)
  from postGuests_capacity [OF demo_m1 demo_events(1) own1,
         where body = demoGuestBody and bytes = demoBytes and newId = "''g9''"] max1 cnt1
  have full: "postGuests demoDb (Some ''m1'') ''e1'' demoGuestBody demoBytes ''g9''
                = Inl (EventFull 2)"
    by simp
  from postGuests_capacity [OF demo_m2 demo_events(4) own4,
         where body = demoGuestBody and bytes = demoBytes and newId = "''g9''"] max4 cnt4 nm ok
  have room: "postGuests demoDb (Some ''m2'') ''e4'' demoGuestBody demoBytes ''g9''
       = Inr (addRow ''g9'' ''e4'' demoGuestBody demoBytes,
              createAuditLog
                (demoDb\<lparr>guests := guests demoDb @ [addRow ''g9'' ''e4'' demoGuestBody demoBytes]\<rparr>)
                (addAudit \<lparr>u_id = ''m2'', u_name = ''Majid'', u_role = event_manager\<rparr> ''e4'' ''g9''))"
    by (metis zero_neq_numeral)
  from demo_m1 demo_events(1) own max1 full max4 cnt4 ok room show ?thesis by simp
qed

subsection \<open>Uploading a guest list\<close>








section \<open>Check-in\<close>

lemma duplicateAnswer_eq:
  "duplicateAnswer d g = Duplicate g (checkedInAt g) (checkedInByName d g)"
  by (simp add: duplicateAnswer_def checkedInByName_def Let_def split: option.splits)

lemma doCall_duplicate:
  assumes "isCheckedIn g" and "callFor d g c"
  shows "doCall d c = Inr (Duplicate g (checkedInAt g) (checkedInByName d g), d)"
proof (cases c)
  case (ById session gid now)
  with assms show ?thesis
    by (auto simp: postCheckIn_def checkInTail_def duplicateAnswer_eq split: sum.splits)
next
  case (ByCode session code eventId now)
  with assms show ?thesis
    by (auto simp: postCheckInCode_def checkInTail_def duplicateAnswer_eq split: sum.splits)
qed

subsection \<open>Repeated scans of a checked-in guest\<close>

text \<open>
  Claim C3. The guest \<open>g\<close> is stored as checked in. Every list of check-in calls, over
  either route, by whichever permitted users and at whatever times, each resolving to
  \<open>g\<close> and passing the access check, gets the same answer for every call: kind
  "duplicate", with the stored guest (which holds \<^verbatim>\<open>checkedInBy\<close>), its stored
  \<^verbatim>\<open>checkedInAt\<close> and the name of the user who checked the guest in. The database after
  the calls is the database before them.
\<close>

theorem checkIn_duplicate_idempotent:
  assumes "isCheckedIn g" and "\<forall>c \<in> set calls. callFor d g c"
  shows "runCalls d calls
           = (replicate (length calls)
                (Inr (Duplicate g (checkedInAt g) (checkedInByName d g))), d)"
  using assms(2)
proof (induction calls)
  case Nil
  then show ?case by simp
next
  case (Cons c cs)
  then have "callFor d g c" by simp
  from doCall_duplicate [OF assms(1) this] Cons show ?case by simp
qed

theorem checkIn_duplicate_idempotent_witness:
  "isCheckedIn demoGuest2
   \<and> list_all (callFor demoDb demoGuest2) demoCalls
   \<and> checkedInBy demoGuest2 = Some ''o1''
   \<and> runCalls demoDb demoCalls
       = ([Inr (Duplicate demoGuest2 (Some 5) ''Omar''),
           Inr (Duplicate demoGuest2 (Some 5) ''Omar''),
           Inr (Duplicate demoGuest2 (Some 5) ''Omar'')], demoDb)"
proof -
  have g: "isCheckedIn demoGuest2" "checkedInAt demoGuest2 = Some 5"
    "checkedInBy demoGuest2 = Some ''o1''"
    by (simp_all add: demoGuest2_def)
  have calls: "\<forall>c \<in> set demoCalls. callFor demoDb demoGuest2 c" by code_simp
  have name: "checkedInByName demoDb demoGuest2 = ''Omar''" by code_simp
  have len: "length demoCalls = 3" by (simp add: demoCalls_def)
  from checkIn_duplicate_idempotent [OF g(1) calls] g calls name len show ?thesis
    by (simp add: numeral_3_eq_3 list_all_iff)
qed

subsection \<open>Callers without access\<close>

text \<open>
  Claim C5, as stated, fails: the guest is looked up before the access check, and an
  unknown id is answered before it. The organizer \<open>o2\<close> of the sample database is
  assigned to no event. For the id of the pending guest \<open>g1\<close> the answer is the 403
  error, for an unknown id it is the 404 "invalid" answer: the answers tell this caller
  whether the guest exists.
\<close>

theorem checkIn_existence_counterexample:
  "requireRole allRoles demoDb (Some ''o2'') = Inr demoOla
   \<and> getGuest demoDb ''g1'' = Some demoGuest1
   \<and> lacksRelation demoDb demoOla (g_eventId demoGuest1)
   \<and> \<not> eventAccess demoDb demoOla demoGuest1
   \<and> getGuest demoDb ''zz'' = None
   \<and> postCheckIn demoDb (Some ''o2'') ''g1'' 9 = Inl Forbidden
   \<and> postCheckIn demoDb (Some ''o2'') ''zz'' 9 = Inl GuestInvalid
   \<and> postCheckInCode demoDb (Some ''o2'') (Some ''AAAA-AAAA-AAAA'') None 9 = Inl Forbidden
   \<and> postCheckInCode demoDb (Some ''o2'') (Some ''ZZZZ-ZZZZ-ZZZZ'') None 9 = Inl CodeInvalid"
  by code_simp

lemma find_Some_mem: "find P xs = Some x \<Longrightarrow> x \<in> set xs \<and> P x"
  by (induction xs) (auto split: if_splits)

lemma getOrganizerEvents_assigned:
  assumes "e \<in> set (getOrganizerEvents d uid)"
  shows "\<exists>a \<in> set (eventOrganizers d). organizerId a = uid \<and> a_eventId a = e_id e"
proof -
  from assms obtain a where a: "a \<in> set (eventOrganizers d)" "organizerId a = uid"
    and e: "getEvent d (a_eventId a) = Some e"
    by (auto simp: getOrganizerEvents_def Let_def List.map_filter_def)
  from e have "e_id e = a_eventId a"
    using find_Some_mem [of "\<lambda>ev. e_id ev = a_eventId a" "events d" e]
    by (simp add: getEvent_def)
  with a show ?thesis by auto
qed

text \<open>A user without a relationship to the event of a guest fails the access block.\<close>

lemma lacksRelation_no_access:
  assumes "lacksRelation d usr (g_eventId g)"
  shows "\<not> eventAccess d usr g"
proof (cases "u_role usr")
  case organizer
  have "\<not> list_ex (\<lambda>e. e_id e = g_eventId g) (getOrganizerEvents d (u_id usr))"
  proof
    assume "list_ex (\<lambda>e. e_id e = g_eventId g) (getOrganizerEvents d (u_id usr))"
    then obtain e where "e \<in> set (getOrganizerEvents d (u_id usr))" "e_id e = g_eventId g"
      by (auto simp: list_ex_iff)
    with getOrganizerEvents_assigned [of e d "u_id usr"]
    have "list_ex (\<lambda>a. a_eventId a = g_eventId g \<and> organizerId a = u_id usr)
            (eventOrganizers d)"
      by (auto simp: list_ex_iff)
    with assms show False by (simp add: lacksRelation_def)
  qed
  with organizer show ?thesis by (simp add: eventAccess_def)
next
  case event_manager
  have "eventManagerId ev \<noteq> u_id usr" if "getEvent d (g_eventId g) = Some ev" for ev
  proof
    assume own: "eventManagerId ev = u_id usr"
    from that have "ev \<in> set (events d) \<and> e_id ev = g_eventId g"
      using find_Some_mem [of "\<lambda>e. e_id e = g_eventId g" "events d" ev]
      by (simp add: getEvent_def)
    with own have "list_ex (\<lambda>ev. e_id ev = g_eventId g \<and> eventManagerId ev = u_id usr)
                     (events d)"
      by (auto simp: list_ex_iff)
    with assms show False by (simp add: lacksRelation_def)
  qed
  with event_manager show ?thesis
    by (auto simp: eventAccess_def split: option.splits)
next
  case admin
  with assms show ?thesis by (simp add: lacksRelation_def)
next
  case super_admin
  with assms show ?thesis by (simp add: lacksRelation_def)
qed

text \<open>
  Claim C5, amended. A signed-in user of a permitted role has no permitted relationship
  to the event of an existing guest \<open>g\<close>: the user does not manage that event, is not
  assigned to it as organizer and is neither admin nor super_admin. Then a check-in by
  the id of the guest is answered with the 403 error. A check-in by the access code of
  the guest is answered with the 400 "not for this event" error when the request names
  another event, and with the 403 error otherwise. Each answer is fixed by the request
  and the event of the guest alone, so it is the same for a pending and for a
  checked-in guest; an error answer carries no new database, nothing is written.
\<close>

theorem checkIn_forbidden_uniform:
  assumes "requireRole allRoles d session = Inr usr"
    and "lacksRelation d usr (g_eventId g)"
  shows "(getGuest d gid = Some g \<longrightarrow> postCheckIn d session gid now = Inl Forbidden)
       \<and> (truthy code \<and> getGuestByQrCode d (toUpperCase (orElse code [])) = Some g
          \<longrightarrow> postCheckInCode d session code eventId now
                = (if truthy eventId \<and> eventId \<noteq> Some (g_eventId g)
                   then Inl CodeWrongEvent else Inl Forbidden))"
proof -
  from assms(2) have no: "\<not> eventAccess d usr g" by (rule lacksRelation_no_access)
  from assms(1) no
  have byId: "getGuest d gid = Some g \<longrightarrow> postCheckIn d session gid now = Inl Forbidden"
    by (simp add: postCheckIn_def)
  from assms(1) no
  have byCode: "truthy code \<and> getGuestByQrCode d (toUpperCase (orElse code [])) = Some g
          \<longrightarrow> postCheckInCode d session code eventId now
                = (if truthy eventId \<and> eventId \<noteq> Some (g_eventId g)
                   then Inl CodeWrongEvent else Inl Forbidden)"
    by (auto simp: postCheckInCode_def)
  from byId byCode show ?thesis by blast
qed

text \<open>
  The theorem at work on the sample database. The organizer \<open>o2\<close> is assigned to no
  event and the manager \<open>m2\<close> does not manage the event \<open>e1\<close>: both get the 403 error for
  the pending guest \<open>g1\<close> and for the checked-in guest \<open>g2\<close> of that event, by id and by
  code; with a request that names the event \<open>e3\<close> the answer by code is the 400 error
  for both guests.
\<close>

theorem checkIn_forbidden_uniform_witness:
  "requireRole allRoles demoDb (Some ''o2'') = Inr demoOla
   \<and> requireRole allRoles demoDb (Some ''m2'') = Inr demoMajid
   \<and> lacksRelation demoDb demoOla ''e1'' \<and> lacksRelation demoDb demoMajid ''e1''
   \<and> g_eventId demoGuest1 = ''e1'' \<and> \<not> isCheckedIn demoGuest1
   \<and> g_eventId demoGuest2 = ''e1'' \<and> isCheckedIn demoGuest2
   \<and> postCheckIn demoDb (Some ''o2'') ''g1'' 9 = Inl Forbidden
   \<and> postCheckIn demoDb (Some ''o2'') ''g2'' 9 = Inl Forbidden
   \<and> postCheckIn demoDb (Some ''m2'') ''g1'' 9 = Inl Forbidden
   \<and> postCheckIn demoDb (Some ''m2'') ''g2'' 9 = Inl Forbidden
   \<and> postCheckInCode demoDb (Some ''m2'') (Some ''aaaa-aaaa-aaaa'') (Some ''e1'') 9
       = Inl Forbidden
   \<and> postCheckInCode demoDb (Some ''m2'') (Some ''bbbb-bbbb-bbbb'') None 9 = Inl Forbidden
   \<and> postCheckInCode demoDb (Some ''o2'') (Some ''aaaa-aaaa-aaaa'') (Some ''e3'') 9
       = Inl CodeWrongEvent
   \<and> postCheckInCode demoDb (Some ''o2'') (Some ''bbbb-bbbb-bbbb'') (Some ''e3'') 9
       = Inl CodeWrongEvent"
proof -
  have ro: "requireRole allRoles demoDb (Some ''o2'') = Inr demoOla" by code_simp
  have rm: "requireRole allRoles demoDb (Some ''m2'') = Inr demoMajid" by code_simp
  have e1: "g_eventId demoGuest1 = ''e1''" "\<not> isCheckedIn demoGuest1"
    by (simp_all add: demoGuest1_def)
  have e2: "g_eventId demoGuest2 = ''e1''" "isCheckedIn demoGuest2"
    by (simp_all add: demoGuest2_def)
  have lo: "lacksRelation demoDb demoOla ''e1''" by code_simp
  have lm: "lacksRelation demoDb demoMajid ''e1''" by code_simp
  have lo1: "lacksRelation demoDb demoOla (g_eventId demoGuest1)" using lo e1 by simp
  have lo2: "lacksRelation demoDb demoOla (g_eventId demoGuest2)" using lo e2 by simp
  have lm1: "lacksRelation demoDb demoMajid (g_eventId demoGuest1)" using lm e1 by simp
  have lm2: "lacksRelation demoDb demoMajid (g_eventId demoGuest2)" using lm e2 by simp
  have g1: "getGuest demoDb ''g1'' = Some demoGuest1" by (simp add: getGuest_def demo_defs)
  have g2: "getGuest demoDb ''g2'' = Some demoGuest2" by (simp add: getGuest_def demo_defs)
  have c1: "getGuestByQrCode demoDb (toUpperCase (orElse (Some ''aaaa-aaaa-aaaa'') []))
              = Some demoGuest1"
    by code_simp
  have c2: "getGuestByQrCode demoDb (toUpperCase (orElse (Some ''bbbb-bbbb-bbbb'') []))
              = Some demoGuest2"
    by code_simp
  have t: "truthy (Some ''aaaa-aaaa-aaaa'')" "truthy (Some ''bbbb-bbbb-bbbb'')"
    "truthy (Some ''e1'')" "truthy (Some ''e3'')" "\<not> truthy None"
    by (simp_all add: truthy_def)
  from checkIn_forbidden_uniform [OF ro lo1, where gid = "''g1''" and now = 9
         and code = "Some ''aaaa-aaaa-aaaa''" and eventId = "Some ''e3''"] g1 c1 t e1
  have a: "postCheckIn demoDb (Some ''o2'') ''g1'' 9 = Inl Forbidden"
    "postCheckInCode demoDb (Some ''o2'') (Some ''aaaa-aaaa-aaaa'') (Some ''e3'') 9
       = Inl CodeWrongEvent"
    by simp_all
  from checkIn_forbidden_uniform [OF ro lo2, where gid = "''g2''" and now = 9
         and code = "Some ''bbbb-bbbb-bbbb''" and eventId = "Some ''e3''"] g2 c2 t e2
  have b: "postCheckIn demoDb (Some ''o2'') ''g2'' 9 = Inl Forbidden"
    "postCheckInCode demoDb (Some ''o2'') (Some ''bbbb-bbbb-bbbb'') (Some ''e3'') 9
       = Inl CodeWrongEvent"
    by simp_all
  from checkIn_forbidden_uniform [OF rm lm1, where gid = "''g1''" and now = 9
         and code = "Some ''aaaa-aaaa-aaaa''" and eventId = "Some ''e1''"] g1 c1 t e1
  have c: "postCheckIn demoDb (Some ''m2'') ''g1'' 9 = Inl Forbidden"
    "postCheckInCode demoDb (Some ''m2'') (Some ''aaaa-aaaa-aaaa'') (Some ''e1'') 9
       = Inl Forbidden"
    by simp_all
  from checkIn_forbidden_uniform [OF rm lm2, where gid = "''g2''" and now = 9
         and code = "Some ''bbbb-bbbb-bbbb''" and eventId = None] g2 c2 t e2
  have d: "postCheckIn demoDb (Some ''m2'') ''g2'' 9 = Inl Forbidden"
    "postCheckInCode demoDb (Some ''m2'') (Some ''bbbb-bbbb-bbbb'') None 9 = Inl Forbidden"
    by simp_all
  from ro rm lo lm e1 e2 a b c d show ?thesis by simp
qed

subsection \<open>Requests that interleave\<close>

text \<open>Served alone, a request takes three steps and answers as the handler does.\<close>

lemma postCheckIn_steps:
  "step r (step r (step r (d, Start)))
     = (case postCheckIn d (r_session r) (r_guestId r) (r_now r) of
          Inl e \<Rightarrow> (d, Finished (Inl e))
        | Inr (a, d') \<Rightarrow> (d', Finished (Inr a)))"
  by (auto simp: step_def postCheckIn_def checkInTail_def
      split: sum.splits option.splits prod.splits)

text \<open>
  Two requests for one pending guest, by any two users with access: when both have read
  the guest before either writes, both answer "success".
\<close>

lemma checkIn_race:
  assumes "getGuest d gid = Some g" and "\<not> isCheckedIn g"
    and "requireRole allRoles d s1 = Inr u1" and "eventAccess d u1 g"
    and "requireRole allRoles d s2 = Inr u2" and "eventAccess d u2 g"
  shows "map kindOf
           (snd (run [\<lparr>r_session = s1, r_guestId = gid, r_now = n1\<rparr>,
                      \<lparr>r_session = s2, r_guestId = gid, r_now = n2\<rparr>]
                     [0, 1, 0, 1, 0, 1] (d, [Start, Start])))
         = [KSuccess, KSuccess]"
  using assms by (simp add: step_def checkInGuest_def Let_def)

text \<open>
  Requests that are served one after the other: the first request for a pending guest
  answers "success" and stamps the guest, every later request for that guest answers
  "duplicate" with the stamp of the first.
\<close>

lemma find_stamped:
  assumes "find (\<lambda>g. g_id g = gid) xs = Some g"
  shows "find (\<lambda>g. g_id g = gid)
           (map (\<lambda>g. if g_id g = gid
                      then g\<lparr>isCheckedIn := True, checkedInAt := Some now, checkedInBy := Some oid\<rparr>
                      else g) xs)
         = Some (g\<lparr>isCheckedIn := True, checkedInAt := Some now, checkedInBy := Some oid\<rparr>)"
  using assms by (induction xs) (auto split: if_splits)

lemma eventAccess_after:
  "eventAccess (createAuditLog (d\<lparr>guests := gs\<rparr>) entry) usr
       (g\<lparr>isCheckedIn := b, checkedInAt := t, checkedInBy := w\<rparr>)
     = eventAccess d usr g"
  by (simp add: eventAccess_def createAuditLog_def getOrganizerEvents_def getEvent_def)

lemma requireRole_after:
  "requireRole roles (createAuditLog (d\<lparr>guests := gs\<rparr>) entry) session = requireRole roles d session"
proof -
  have "getUser (createAuditLog (d\<lparr>guests := gs\<rparr>) entry) = getUser d"
    by (simp add: fun_eq_iff getUser_def createAuditLog_def)
  then show ?thesis by (cases session) (simp_all add: requireRole_def)
qed

lemma postCheckIn_pending:
  assumes "requireRole allRoles d session = Inr usr" and "getGuest d gid = Some g"
    and "eventAccess d usr g" and "\<not> isCheckedIn g"
  shows "\<exists>d'. postCheckIn d session gid now
           = Inr (Success (Some (g\<lparr>isCheckedIn := True, checkedInAt := Some now,
                                    checkedInBy := Some (u_id usr)\<rparr>)), d')
         \<and> getGuest d' gid = Some (g\<lparr>isCheckedIn := True, checkedInAt := Some now,
                                    checkedInBy := Some (u_id usr)\<rparr>)
         \<and> (\<forall>s. requireRole allRoles d' s = requireRole allRoles d s)
         \<and> (\<forall>u. eventAccess d' u (g\<lparr>isCheckedIn := True, checkedInAt := Some now,
                                    checkedInBy := Some (u_id usr)\<rparr>) = eventAccess d u g)
         \<and> auditLogs d' = auditLogs d @ [checkInAudit usr g]"
  using assms find_stamped [where gid = gid and xs = "guests d" and g = g and now = now
      and oid = "u_id usr"]
  by (simp add: postCheckIn_def checkInTail_def checkInGuest_def Let_def getGuest_def
      eventAccess_after requireRole_after) (simp add: createAuditLog_def)

lemma runCalls_duplicates:
  assumes "isCheckedIn g" and "\<forall>c \<in> set calls. callFor d g c"
  shows "runCalls d calls
           = (replicate (length calls)
                (Inr (Duplicate g (checkedInAt g) (checkedInByName d g))), d)"
  using assms(2)
proof (induction calls)
  case Nil
  then show ?case by simp
next
  case (Cons c cs)
  then have "callFor d g c" by simp
  from doCall_duplicate [OF assms(1) this] Cons show ?case by simp
qed

lemma checkIn_sequential_once:
  assumes "requireRole allRoles d session = Inr usr" and "getGuest d gid = Some g"
    and "eventAccess d usr g" and "\<not> isCheckedIn g"
    and rest: "\<forall>c \<in> set calls. \<exists>s n u. c = ById s gid n \<and> requireRole allRoles d s = Inr u
                  \<and> eventAccess d u g"
  shows "\<exists>d' g'. runCalls d (ById session gid now # calls)
            = (Inr (Success (Some g'))
                 # replicate (length calls)
                     (Inr (Duplicate g' (Some now) (checkedInByName d' g'))), d')
          \<and> checkedInAt g' = Some now \<and> checkedInBy g' = Some (u_id usr)"
proof -
  let ?g = "g\<lparr>isCheckedIn := True, checkedInAt := Some now, checkedInBy := Some (u_id usr)\<rparr>"
  from postCheckIn_pending [OF assms(1-4), of now]
  obtain d' where first: "postCheckIn d session gid now = Inr (Success (Some ?g), d')"
    and g': "getGuest d' gid = Some ?g"
    and roles: "\<And>s. requireRole allRoles d' s = requireRole allRoles d s"
    and acc: "\<And>u. eventAccess d' u ?g = eventAccess d u g"
    by blast
  have "\<forall>c \<in> set calls. callFor d' ?g c"
  proof
    fix c assume "c \<in> set calls"
    with rest obtain s n u where "c = ById s gid n" "requireRole allRoles d s = Inr u"
      "eventAccess d u g" by blast
    with g' roles acc show "callFor d' ?g c" by simp
  qed
  with runCalls_duplicates [of ?g calls d']
  have "runCalls d' calls
          = (replicate (length calls) (Inr (Duplicate ?g (Some now) (checkedInByName d' ?g))), d')"
    by simp
  with first show ?thesis by auto
qed

text \<open>
  Claim C1 on the code. The guest \<open>g1\<close> of the sample database is pending; the organizer
  of its event and an administrator each send one check-in request for it. When the
  requests take turns step by step, both are answered "success", the second update
  overwrites the stamp of the first, and two audit rows are written. When one request
  runs to its end before the other starts, the answers are "success" and "duplicate".
\<close>

theorem checkIn_two_successes:
  "getGuest demoDb ''g1'' = Some demoGuest1 \<and> \<not> isCheckedIn demoGuest1
   \<and> map kindOf (snd (run demoRequests [0, 1, 0, 1, 0, 1] (demoDb, [Start, Start])))
       = [KSuccess, KSuccess]
   \<and> map_option checkedInBy
        (getGuest (fst (run demoRequests [0, 1, 0, 1, 0, 1] (demoDb, [Start, Start]))) ''g1'')
       = Some (Some ''adm'')
   \<and> length (auditLogs (fst (run demoRequests [0, 1, 0, 1, 0, 1] (demoDb, [Start, Start]))))
       = 2
   \<and> map kindOf (snd (run demoRequests [0, 0, 0, 1, 1, 1] (demoDb, [Start, Start])))
       = [KSuccess, KDuplicate]"
  by code_simp

section \<open>Capacity tiers\<close>







end
